theory Spec2Isabelle
  imports Main "HOL-Library.Word" "HOL-Library.Multiset" "HOL-Library.List_Lexorder" "HOL-Library.Product_Lexorder"
begin

section \<open>Strings of the chat server\<close>

text \<open>
  A JavaScript string is a sequence of UTF-16 code units.  \<open>str\<close> writes an ASCII
  literal of the source as such a sequence.
\<close>

type_synonym jsstring = "16 word list"

definition str :: "string \<Rightarrow> jsstring" where
  "str s = map (\<lambda>c. of_nat (of_char c)) s"

text \<open>
  \<open>String.prototype.trim\<close> removes the ECMAScript WhiteSpace and LineTerminator code
  points from both ends: TAB, LF, VT, FF, CR, SP, NBSP, U+1680, U+2000 to U+200A, LS, PS,
  U+202F, U+205F, U+3000 and the byte order mark.
\<close>

definition isWhiteSpace :: "16 word \<Rightarrow> bool" where
  "isWhiteSpace c =
     (c = 0x0009 \<or> c = 0x000A \<or> c = 0x000B \<or> c = 0x000C \<or> c = 0x000D \<or> c = 0x0020
      \<or> c = 0x00A0 \<or> c = 0x1680 \<or> (0x2000 \<le> c \<and> c \<le> 0x200A) \<or> c = 0x2028
      \<or> c = 0x2029 \<or> c = 0x202F \<or> c = 0x205F \<or> c = 0x3000 \<or> c = 0xFEFF)"

definition trim :: "jsstring \<Rightarrow> jsstring" where
  "trim s = rev (dropWhile isWhiteSpace (rev (dropWhile isWhiteSpace s)))"

section \<open>Data model (types.ts)\<close>

record OnlineUser =
  socketId :: jsstring
  userId :: jsstring

text \<open>
  \<open>Message\<close> has the fields of \<open>SendMessagePayload\<close> and a timestamp;
  \<open>ReceiveMessagePayload\<close> and \<open>StoredMessage\<close> add the optional \<open>id\<close>.  The fields
  \<open>text\<close> and \<open>id\<close> carry a prime, since the plain names are taken.
\<close>

record SendMessagePayload =
  senderId :: jsstring
  text' :: jsstring

record Message = SendMessagePayload +
  timestamp :: nat

record ReceiveMessagePayload = Message +
  id' :: "jsstring option"

type_synonym StoredMessage = ReceiveMessagePayload

datatype ServerToClientEvents =
    usersOnline "OnlineUser list"
  | receiveMessage ReceiveMessagePayload
  | newMessage ReceiveMessagePayload

text \<open>What a handler sends: \<open>io.emit\<close> to every connection, \<open>socket.emit\<close> to one.\<close>

datatype emitted =
    io_emit ServerToClientEvents
  | socket_emit jsstring ServerToClientEvents

section \<open>The server state and its collaborators\<close>

text \<open>
  The mutable state is the module variable \<open>onlineUsers\<close> and the Firestore collection
  \<open>messages\<close>, a list of documents (document id, data) in the order they were added.
\<close>

type_synonym doc = "jsstring \<times> Message"

record server =
  onlineUsers :: "OnlineUser list"
  messages :: "doc list"

definition server0 :: server where
  "server0 = \<lparr>onlineUsers = [], messages = []\<rparr>"

datatype error = StorageError

text \<open>
  \<open>Date.now()\<close> reads the clock: the time \<open>t\<close> at an earlier moment plus the
  milliseconds \<open>d\<close> that have elapsed since.
\<close>

definition Date_now :: "nat \<Rightarrow> nat \<Rightarrow> nat" where
  "Date_now t d = t + d"

text \<open>
  \<open>db.collection("messages").add(message)\<close>: the store decides the outcome, either a
  rejection or the id of the new document, which is then part of the collection.
\<close>

definition collection_add :: "Message \<Rightarrow> error + jsstring \<Rightarrow> doc list \<Rightarrow> doc list" where
  "collection_add message outcome docs =
     (case outcome of Inl e \<Rightarrow> docs | Inr ref_id \<Rightarrow> docs @ [(ref_id, message)])"

section \<open>Socket handlers (index.ts)\<close>

definition newUser :: "jsstring \<Rightarrow> jsstring \<Rightarrow> server \<Rightarrow> server \<times> emitted list" where
  "newUser socket_id uid s =
     (if uid = [] \<or> trim uid = [] then (s, [])
      else
        let users =
          (case find (\<lambda>user. userId user = uid) (onlineUsers s) of
             Some existingUser \<Rightarrow>
               map (\<lambda>user. if userId user = uid then user\<lparr>socketId := socket_id\<rparr> else user)
                 (onlineUsers s)
           | None \<Rightarrow> onlineUsers s @ [\<lparr>socketId = socket_id, userId = uid\<rparr>])
        in (s\<lparr>onlineUsers := users\<rparr>, [io_emit (usersOnline users)]))"

text \<open>
  \<open>sendMessage\<close> takes what the environment supplies: the time \<open>t0\<close> at which the
  handler began, the time \<open>d1\<close> elapsed until the first \<open>Date.now()\<close>, the outcome of
  the Firestore \<open>add\<close>, and the time \<open>d2\<close> elapsed from the first \<open>Date.now()\<close> to
  the one in the \<open>catch\<close> block.
\<close>

definition sendMessage ::
  "jsstring \<Rightarrow> SendMessagePayload \<Rightarrow> nat \<Rightarrow> nat \<Rightarrow> error + jsstring \<Rightarrow> nat \<Rightarrow> server
     \<Rightarrow> server \<times> emitted list" where
  "sendMessage socket_id payload t0 d1 outcome d2 s =
     (if senderId payload = [] \<or> text' payload = [] then (s, [])
      else
        let message = \<lparr>senderId = senderId payload, text' = text' payload,
                       timestamp = Date_now t0 d1\<rparr>;
            s' = s\<lparr>messages := collection_add message outcome (messages s)\<rparr>
        in case outcome of
             Inr ref_id \<Rightarrow>
               (s', [io_emit (newMessage
                  \<lparr>senderId = senderId message, text' = text' message,
                   timestamp = timestamp message, id' = Some ref_id\<rparr>)])
           | Inl e \<Rightarrow>
               (s', [socket_emit socket_id (newMessage
                  \<lparr>senderId = str ''system'',
                   text' = str ''Error sending message. Please try again.'',
                   timestamp = Date_now (Date_now t0 d1) d2, id' = None\<rparr>)]))"

definition disconnect :: "jsstring \<Rightarrow> server \<Rightarrow> server \<times> emitted list" where
  "disconnect socket_id s =
     (let users = filter (\<lambda>user. socketId user \<noteq> socket_id) (onlineUsers s)
      in (s\<lparr>onlineUsers := users\<rparr>, [io_emit (usersOnline users)]))"

text \<open>The events a connection delivers, each with the id of its socket.\<close>

datatype ClientToServerEvents =
    on_newUser jsstring jsstring
  | on_sendMessage jsstring SendMessagePayload nat nat "error + jsstring" nat
  | on_disconnect jsstring

fun handle :: "server \<Rightarrow> ClientToServerEvents \<Rightarrow> server \<times> emitted list" where
  "handle s (on_newUser socket_id uid) = newUser socket_id uid s"
| "handle s (on_sendMessage socket_id payload t0 d1 outcome d2) =
     sendMessage socket_id payload t0 d1 outcome d2 s"
| "handle s (on_disconnect socket_id) = disconnect socket_id s"

text \<open>The state after a sequence of events, handled one after the other.\<close>

definition run :: "server \<Rightarrow> ClientToServerEvents list \<Rightarrow> server" where
  "run s evs = foldl (\<lambda>s ev. fst (handle s ev)) s evs"

section \<open>History retrieval\<close>

text \<open>
  The Firestore query \<open>orderBy("timestamp", "desc").limit(n).get()\<close>: the documents in
  descending order of timestamp, documents with equal timestamps in descending order of
  their id, cut after the first \<open>n\<close>.  The read fails when the store is unreachable.
\<close>

definition orderBy_timestamp_desc :: "doc list \<Rightarrow> doc list" where
  "orderBy_timestamp_desc docs = rev (sort_key (\<lambda>d. (timestamp (snd d), fst d)) docs)"

definition query_get :: "bool \<Rightarrow> nat \<Rightarrow> doc list \<Rightarrow> error + doc list" where
  "query_get reachable n docs =
     (if reachable then Inr (take n (orderBy_timestamp_desc docs)) else Inl StorageError)"

definition stored :: "doc \<Rightarrow> StoredMessage" where
  "stored d = \<lparr>senderId = senderId (snd d), text' = text' (snd d),
               timestamp = timestamp (snd d), id' = Some (fst d)\<rparr>"

definition getAllMessages :: "bool \<Rightarrow> nat \<Rightarrow> doc list \<Rightarrow> error + StoredMessage list" where
  "getAllMessages reachable limit docs =
     (case query_get reachable limit docs of
        Inl e \<Rightarrow> Inl e
      | Inr snapshot \<Rightarrow> Inr (rev (map stored snapshot)))"

text \<open>
  \<open>GET /api/messages\<close>: \<open>parsed\<close> is the value of \<open>parseInt(req.query.limit)\<close>, \<open>None\<close>
  for NaN; \<open>parsed || 100\<close> replaces NaN and 0 by 100.  The answer is the list of
  messages, or the status 500.
\<close>

definition api_messages :: "bool \<Rightarrow> nat option \<Rightarrow> doc list \<Rightarrow> nat + StoredMessage list" where
  "api_messages reachable parsed docs =
     (let limit = (case parsed of None \<Rightarrow> 100 | Some n \<Rightarrow> if n = 0 then 100 else n)
      in case query_get reachable limit docs of
           Inl e \<Rightarrow> Inl 500
         | Inr snapshot \<Rightarrow> Inr (rev (map stored snapshot)))"

section \<open>Auxiliary notions for the proofs\<close>

text \<open>
  The (socket, userId) pairs of the \<open>newUser\<close> events of a trace whose userId passes the
  validation of the handler, in the order of the trace.
\<close>

fun registrations :: "ClientToServerEvents list \<Rightarrow> (jsstring \<times> jsstring) list" where
  "registrations [] = []"
| "registrations (on_newUser c uid # evs) =
     (if uid = [] \<or> trim uid = [] then registrations evs else (c, uid) # registrations evs)"
| "registrations (ev # evs) = registrations evs"

text \<open>No socket of the trace registers under two different userIds.\<close>

definition one_identity_per_socket :: "ClientToServerEvents list \<Rightarrow> bool" where
  "one_identity_per_socket evs \<longleftrightarrow>
     (\<forall>(c, u) \<in> set (registrations evs). \<forall>(c', u') \<in> set (registrations evs).
        c = c' \<longrightarrow> u = u')"

text \<open>An entry of the registry is accounted for by a trace that has its registration.\<close>

definition registered_in :: "ClientToServerEvents list \<Rightarrow> OnlineUser \<Rightarrow> bool" where
  "registered_in evs user \<longleftrightarrow> (socketId user, userId user) \<in> set (registrations evs)"

section \<open>Properties of trim and of the handlers\<close>

lemma dropWhile_all_iff: "(\<forall>x\<in>set (dropWhile P xs). P x) \<longleftrightarrow> (\<forall>x\<in>set xs. P x)"
proof
  assume a: "\<forall>x\<in>set (dropWhile P xs). P x"
  have "dropWhile P xs = []"
  proof (rule ccontr)
    assume ne: "dropWhile P xs \<noteq> []"
    then have "\<not> P (hd (dropWhile P xs))" by (rule hd_dropWhile)
    moreover from ne have "hd (dropWhile P xs) \<in> set (dropWhile P xs)" by simp
    ultimately show False using a by blast
  qed
  then show "\<forall>x\<in>set xs. P x" by (simp add: dropWhile_eq_Nil_conv)
next
  assume "\<forall>x\<in>set xs. P x"
  then show "\<forall>x\<in>set (dropWhile P xs). P x"
    by (blast dest: set_dropWhileD)
qed

lemma trim_Nil_iff: "trim s = [] \<longleftrightarrow> list_all isWhiteSpace s"
  by (simp add: trim_def dropWhile_eq_Nil_conv dropWhile_all_iff list_all_iff)

lemma str_eval: "str [] = []" "str (c # cs) = of_nat (of_char c) # str cs"
  by (simp_all add: str_def)

lemma newUser_existing:
  assumes "uid \<in> userId ` set (onlineUsers s)" and "trim uid \<noteq> []"
  shows "newUser c uid s =
     (s\<lparr>onlineUsers := map (\<lambda>user. if userId user = uid then user\<lparr>socketId := c\<rparr> else user) (onlineUsers s)\<rparr>,
      [io_emit (usersOnline (map (\<lambda>user. if userId user = uid then user\<lparr>socketId := c\<rparr> else user) (onlineUsers s)))])"
proof -
  from assms(2) have ne: "uid \<noteq> []" by (auto simp: trim_def)
  from assms(1) have "find (\<lambda>user. userId user = uid) (onlineUsers s) \<noteq> None"
    by (auto simp: find_None_iff)
  then obtain e where "find (\<lambda>user. userId user = uid) (onlineUsers s) = Some e" by auto
  with ne assms(2) show ?thesis by (simp add: newUser_def Let_def)
qed

lemma newUser_fresh:
  assumes "uid \<notin> userId ` set (onlineUsers s)" and "trim uid \<noteq> []"
  shows "newUser c uid s =
     (s\<lparr>onlineUsers := onlineUsers s @ [\<lparr>socketId = c, userId = uid\<rparr>]\<rparr>,
      [io_emit (usersOnline (onlineUsers s @ [\<lparr>socketId = c, userId = uid\<rparr>]))])"
proof -
  from assms(2) have ne: "uid \<noteq> []" by (auto simp: trim_def)
  from assms(1) have "find (\<lambda>user. userId user = uid) (onlineUsers s) = None"
    by (auto simp: find_None_iff)
  with ne assms(2) show ?thesis by (simp add: newUser_def Let_def)
qed

lemma run_Nil: "run s [] = s"
  by (simp add: run_def)

lemma run_snoc: "run s (evs @ [ev]) = fst (handle (run s evs) ev)"
  by (simp add: run_def)

lemma run_Cons: "run s (ev # evs) = run (fst (handle s ev)) evs"
  by (simp add: run_def)

lemma sendMessage_onlineUsers:
  "onlineUsers (fst (sendMessage c payload t0 d1 outcome d2 s)) = onlineUsers s"
  by (simp add: sendMessage_def Let_def split: sum.split)

lemma disconnect_onlineUsers:
  "onlineUsers (fst (disconnect c s)) = filter (\<lambda>user. socketId user \<noteq> c) (onlineUsers s)"
  by (simp add: disconnect_def Let_def)

lemma newUser_cases:
  obtains (blank) "trim uid = []" "newUser c uid s = (s, [])"
  | (existing) "trim uid \<noteq> []" "uid \<in> userId ` set (onlineUsers s)"
      "onlineUsers (fst (newUser c uid s)) =
         map (\<lambda>user. if userId user = uid then user\<lparr>socketId := c\<rparr> else user) (onlineUsers s)"
  | (fresh) "trim uid \<noteq> []" "uid \<notin> userId ` set (onlineUsers s)"
      "onlineUsers (fst (newUser c uid s)) = onlineUsers s @ [\<lparr>socketId = c, userId = uid\<rparr>]"
proof (cases "trim uid = []")
  case True
  then have "newUser c uid s = (s, [])" by (simp add: newUser_def)
  with True show ?thesis by (rule blank)
next
  case False
  show ?thesis
  proof (cases "uid \<in> userId ` set (onlineUsers s)")
    case True
    with False show ?thesis by (intro existing) (simp_all add: newUser_existing)
  next
    case False
    with \<open>trim uid \<noteq> []\<close> show ?thesis by (intro fresh) (simp_all add: newUser_fresh)
  qed
qed

lemma registrations_append: "registrations (evs @ evs') = registrations evs @ registrations evs'"
  by (induction evs rule: registrations.induct) simp_all

lemma registered_in_snoc: "registered_in evs user \<Longrightarrow> registered_in (evs @ [ev]) user"
  by (simp add: registered_in_def registrations_append)

lemma registered_in_newUser:
  "trim uid \<noteq> [] \<Longrightarrow> registered_in (evs @ [on_newUser c uid]) \<lparr>socketId = c, userId = uid\<rparr>"
  by (auto simp: registered_in_def registrations_append trim_def)

lemma map_userId_update:
  "map userId (map (\<lambda>user. if userId user = uid then user\<lparr>socketId := c\<rparr> else user) xs)
     = map userId xs"
  by (induction xs) auto

lemma handle_invariant:
  assumes d: "distinct (map userId (onlineUsers s))"
      and r: "\<forall>user\<in>set (onlineUsers s). registered_in evs user"
  shows "distinct (map userId (onlineUsers (fst (handle s ev))))
       \<and> (\<forall>user\<in>set (onlineUsers (fst (handle s ev))). registered_in (evs @ [ev]) user)"
proof (cases ev)
  case (on_newUser c uid)
  show ?thesis
  proof (cases c uid s rule: newUser_cases)
    case blank
    with d r on_newUser show ?thesis by (simp add: registered_in_snoc)
  next
    case existing
    have "registered_in (evs @ [ev]) user"
      if "user \<in> set (onlineUsers (fst (newUser c uid s)))" for user
    proof -
      from that existing(3) obtain old where old: "old \<in> set (onlineUsers s)"
        and user: "user = (if userId old = uid then old\<lparr>socketId := c\<rparr> else old)"
        by auto
      show ?thesis
      proof (cases "userId old = uid")
        case True
        with user existing(1) on_newUser show ?thesis
          using registered_in_newUser [of uid evs c] by (cases old) simp
      next
        case False
        with user old r show ?thesis by (simp add: registered_in_snoc)
      qed
    qed
    moreover have "map userId (onlineUsers (fst (newUser c uid s))) = map userId (onlineUsers s)"
      by (simp only: existing(3) map_userId_update)
    ultimately show ?thesis using d on_newUser by simp
  next
    case fresh
    have "registered_in (evs @ [ev]) \<lparr>socketId = c, userId = uid\<rparr>"
      using fresh(1) on_newUser by (simp add: registered_in_newUser)
    with d r fresh(2,3) on_newUser show ?thesis
      by (auto simp: registered_in_snoc)
  qed
next
  case (on_sendMessage c payload t0 d1 outcome d2)
  with d r show ?thesis by (simp add: sendMessage_onlineUsers registered_in_snoc)
next
  case (on_disconnect c)
  with d r show ?thesis
    by (simp add: disconnect_onlineUsers distinct_map_filter registered_in_snoc)
qed

lemma run_invariant:
  "distinct (map userId (onlineUsers (run server0 evs)))
   \<and> (\<forall>user\<in>set (onlineUsers (run server0 evs)). registered_in evs user)"
proof (induction evs rule: rev_induct)
  case Nil
  show ?case by (simp add: run_Nil server0_def)
next
  case (snoc ev evs)
  then show ?case using handle_invariant [of "run server0 evs" evs ev]
    by (simp add: run_snoc)
qed

lemma registrations_valid: "(c, uid) \<in> set (registrations evs) \<Longrightarrow> trim uid \<noteq> []"
  by (induction evs rule: registrations.induct) (auto split: if_splits)

lemma run_userIds_valid:
  "user \<in> set (onlineUsers (run server0 evs)) \<Longrightarrow> trim (userId user) \<noteq> []"
  using run_invariant [of evs] registrations_valid [of "socketId user" "userId user" evs]
  by (auto simp: registered_in_def)

section \<open>The registry invariant\<close>

text \<open>
  C1 (as amended): after every sequence of events handled from the empty registry, no two
  entries of \<open>onlineUsers\<close> have the same userId; and no two entries have the same
  socketId, provided that no socket sends \<open>newUser\<close> with two different valid userIds.
\<close>

theorem registry_unique:
  "distinct (map userId (onlineUsers (run server0 evs)))
   \<and> (one_identity_per_socket evs \<longrightarrow> distinct (map socketId (onlineUsers (run server0 evs))))"
proof (intro conjI impI)
  let ?reg = "onlineUsers (run server0 evs)"
  show d: "distinct (map userId ?reg)"
    using run_invariant by blast
  assume one: "one_identity_per_socket evs"
  from d have dr: "distinct ?reg" and inj: "inj_on userId (set ?reg)"
    by (simp_all add: distinct_map)
  have "inj_on socketId (set ?reg)"
  proof (rule inj_onI)
    fix x y assume x: "x \<in> set ?reg" and y: "y \<in> set ?reg" and eq: "socketId x = socketId y"
    from x y have "registered_in evs x" "registered_in evs y"
      using run_invariant by blast+
    with eq one have "userId x = userId y"
      unfolding registered_in_def one_identity_per_socket_def by fastforce
    with inj x y show "x = y" by (simp add: inj_on_def)
  qed
  with dr show "distinct (map socketId ?reg)" by (simp add: distinct_map)
qed

text \<open>
  Without the proviso the socketIds can repeat: a socket that registers as alice and then
  as bob has two entries.
\<close>

theorem registry_socketId_counterexample:
  "\<not> distinct (map socketId (onlineUsers (run server0
        [on_newUser (str ''X'') (str ''alice''), on_newUser (str ''X'') (str ''bob'')])))"
  by (simp add: run_def newUser_def Let_def server0_def trim_def str_eval isWhiteSpace_def)

theorem registry_unique_witness:
  "one_identity_per_socket
     [on_newUser (str ''X'') (str ''alice''), on_newUser (str ''Y'') (str ''bob''),
      on_newUser (str ''Z'') (str ''alice''), on_disconnect (str ''X'')]
   \<and> distinct (map userId (onlineUsers (run server0
        [on_newUser (str ''X'') (str ''alice''), on_newUser (str ''Y'') (str ''bob''),
         on_newUser (str ''Z'') (str ''alice''), on_disconnect (str ''X'')])))
   \<and> distinct (map socketId (onlineUsers (run server0
        [on_newUser (str ''X'') (str ''alice''), on_newUser (str ''Y'') (str ''bob''),
         on_newUser (str ''Z'') (str ''alice''), on_disconnect (str ''X'')])))"
proof -
  have h: "one_identity_per_socket
     [on_newUser (str ''X'') (str ''alice''), on_newUser (str ''Y'') (str ''bob''),
      on_newUser (str ''Z'') (str ''alice''), on_disconnect (str ''X'')]"
    by (simp add: one_identity_per_socket_def trim_def str_eval isWhiteSpace_def)
  with registry_unique [of "[on_newUser (str ''X'') (str ''alice''), on_newUser (str ''Y'') (str ''bob''),
         on_newUser (str ''Z'') (str ''alice''), on_disconnect (str ''X'')]"]
  show ?thesis by blast
qed

section \<open>Registration\<close>

text \<open>
  C5: when the registry has an entry for the userId and the userId passes validation,
  \<open>newUser\<close> from a socket \<open>c\<close> keeps the length of the roster and the userId at every
  position, sets the socketId of the entries of that userId to \<open>c\<close>, leaves the other
  entries as they were, and broadcasts the roster.
\<close>

theorem newUser_reconnect_in_place:
  assumes "uid \<in> userId ` set (onlineUsers s)" and "trim uid \<noteq> []"
  shows "length (onlineUsers (fst (newUser c uid s))) = length (onlineUsers s)
       \<and> map userId (onlineUsers (fst (newUser c uid s))) = map userId (onlineUsers s)
       \<and> (\<forall>i < length (onlineUsers s).
            onlineUsers (fst (newUser c uid s)) ! i =
              (if userId (onlineUsers s ! i) = uid then \<lparr>socketId = c, userId = uid\<rparr>
               else onlineUsers s ! i))
       \<and> messages (fst (newUser c uid s)) = messages s
       \<and> snd (newUser c uid s) = [io_emit (usersOnline (onlineUsers (fst (newUser c uid s))))]"
  by (simp add: newUser_existing [OF assms] map_userId_update)

theorem newUser_reconnect_in_place_witness:
  "str ''alice'' \<in> userId ` set (onlineUsers
       \<lparr>onlineUsers = [\<lparr>socketId = str ''X'', userId = str ''alice''\<rparr>,
                       \<lparr>socketId = str ''Y'', userId = str ''bob''\<rparr>], messages = []\<rparr>)
   \<and> trim (str ''alice'') \<noteq> []
   \<and> onlineUsers (fst (newUser (str ''Z'') (str ''alice'')
       \<lparr>onlineUsers = [\<lparr>socketId = str ''X'', userId = str ''alice''\<rparr>,
                       \<lparr>socketId = str ''Y'', userId = str ''bob''\<rparr>], messages = []\<rparr>)) ! 0
      = \<lparr>socketId = str ''Z'', userId = str ''alice''\<rparr>
   \<and> map userId (onlineUsers (fst (newUser (str ''Z'') (str ''alice'')
       \<lparr>onlineUsers = [\<lparr>socketId = str ''X'', userId = str ''alice''\<rparr>,
                       \<lparr>socketId = str ''Y'', userId = str ''bob''\<rparr>], messages = []\<rparr>)))
      = [str ''alice'', str ''bob'']"
proof -
  have h1: "str ''alice'' \<in> userId ` set (onlineUsers
       \<lparr>onlineUsers = [\<lparr>socketId = str ''X'', userId = str ''alice''\<rparr>,
                       \<lparr>socketId = str ''Y'', userId = str ''bob''\<rparr>], messages = []\<rparr>)"
    by simp
  have h2: "trim (str ''alice'') \<noteq> []"
    by (simp add: trim_def str_eval isWhiteSpace_def)
  show ?thesis
    using h1 h2 newUser_reconnect_in_place [OF h1 h2, of "str ''Z''"] by simp
qed

text \<open>
  C6: \<open>newUser\<close> with an empty userId, or one made of white space only, returns the
  state as it was and emits nothing.
\<close>

theorem newUser_blank_noop:
  "uid = [] \<or> list_all isWhiteSpace uid \<Longrightarrow> newUser socket_id uid s = (s, [])"
  using trim_Nil_iff [of uid] by (auto simp: newUser_def)

theorem newUser_blank_noop_witness:
  "(str ''   '' = [] \<or> list_all isWhiteSpace (str ''   ''))
   \<and> newUser (str ''X'') (str ''   '') server0 = (server0, [])
   \<and> newUser (str ''X'') (str '''') server0 = (server0, [])"
  using newUser_blank_noop [of "str ''   ''" "str ''X''" server0]
        newUser_blank_noop [of "str ''''" "str ''X''" server0]
  by (simp add: str_eval isWhiteSpace_def)

section \<open>Sending a message\<close>

lemma sendMessage_rejected:
  "senderId payload = [] \<or> text' payload = [] \<Longrightarrow>
   sendMessage c payload t0 d1 outcome d2 s = (s, [])"
  by (simp add: sendMessage_def)

lemma sendMessage_persisted:
  "senderId payload \<noteq> [] \<Longrightarrow> text' payload \<noteq> [] \<Longrightarrow>
   sendMessage c payload t0 d1 (Inr ref_id) d2 s =
     (s\<lparr>messages := messages s @
          [(ref_id, \<lparr>senderId = senderId payload, text' = text' payload,
                     timestamp = Date_now t0 d1\<rparr>)]\<rparr>,
      [io_emit (newMessage \<lparr>senderId = senderId payload, text' = text' payload,
                            timestamp = Date_now t0 d1, id' = Some ref_id\<rparr>)])"
  by (simp add: sendMessage_def Let_def collection_add_def)

lemma sendMessage_failed:
  "senderId payload \<noteq> [] \<Longrightarrow> text' payload \<noteq> [] \<Longrightarrow>
   sendMessage c payload t0 d1 (Inl e) d2 s =
     (s, [socket_emit c (newMessage
        \<lparr>senderId = str ''system'', text' = str ''Error sending message. Please try again.'',
         timestamp = Date_now (Date_now t0 d1) d2, id' = None\<rparr>)])"
  by (simp add: sendMessage_def Let_def collection_add_def)

lemma sendMessage_cases:
  obtains (rejected) "senderId payload = [] \<or> text' payload = []"
      "sendMessage c payload t0 d1 outcome d2 s = (s, [])"
  | (persisted) ref_id where "outcome = Inr ref_id"
      "sendMessage c payload t0 d1 outcome d2 s =
        (s\<lparr>messages := messages s @
          [(ref_id, \<lparr>senderId = senderId payload, text' = text' payload,
                     timestamp = Date_now t0 d1\<rparr>)]\<rparr>,
         [io_emit (newMessage \<lparr>senderId = senderId payload, text' = text' payload,
                            timestamp = Date_now t0 d1, id' = Some ref_id\<rparr>)])"
  | (failed) e where "outcome = Inl e"
      "sendMessage c payload t0 d1 outcome d2 s =
        (s, [socket_emit c (newMessage
          \<lparr>senderId = str ''system'', text' = str ''Error sending message. Please try again.'',
           timestamp = Date_now (Date_now t0 d1) d2, id' = None\<rparr>)])"
proof (cases "senderId payload = [] \<or> text' payload = []")
  case True
  then show ?thesis by (intro rejected) (simp_all add: sendMessage_rejected)
next
  case False
  show ?thesis
  proof (cases outcome)
    case (Inl e)
    with False show ?thesis by (intro failed [of e]) (simp_all add: sendMessage_failed)
  next
    case (Inr ref_id)
    with False show ?thesis by (intro persisted [of ref_id]) (simp_all add: sendMessage_persisted)
  qed
qed

lemma newUser_emits:
  "snd (newUser c uid s) = [] \<or> (\<exists>users. snd (newUser c uid s) = [io_emit (usersOnline users)])"
  by (simp add: newUser_def Let_def)

lemma broadcast_is_persisted:
  assumes "io_emit (newMessage p) \<in> set (snd (handle s ev))"
  shows "\<exists>ref_id. id' p = Some ref_id
           \<and> (ref_id, \<lparr>senderId = senderId p, text' = text' p, timestamp = timestamp p\<rparr>)
               \<in> set (messages (fst (handle s ev)))"
proof (cases ev)
  case (on_newUser c uid)
  with assms newUser_emits [of c uid s] show ?thesis by auto
next
  case (on_sendMessage c payload t0 d1 outcome d2)
  show ?thesis
  proof (cases rule: sendMessage_cases [where payload = payload and c = c and ?t0.0 = t0
      and ?d1.0 = d1 and outcome = outcome and ?d2.0 = d2 and s = s])
    case rejected
    with assms on_sendMessage show ?thesis by simp
  next
    case (persisted ref_id)
    with assms on_sendMessage show ?thesis by auto
  next
    case (failed e)
    with assms on_sendMessage show ?thesis by simp
  qed
next
  case (on_disconnect c)
  with assms show ?thesis by (simp add: disconnect_def Let_def)
qed

text \<open>
  C2: with a non-empty senderId and a non-empty text, when the Firestore \<open>add\<close> succeeds
  with \<open>ref_id\<close>, the handler emits one event, a \<open>newMessage\<close> to every connection,
  carrying the senderId and the text of the payload, the id returned by the store and the
  timestamp read at \<open>Date.now()\<close>, which is the timestamp of the stored document and is
  not before the time \<open>t0\<close> at which the handler began.  Whatever the event, a
  \<open>newMessage\<close> sent to every connection carries an id under which the collection, as
  the handler leaves it, holds that message.
\<close>

theorem sendMessage_persist_then_broadcast:
  "(senderId payload \<noteq> [] \<and> text' payload \<noteq> [] \<longrightarrow>
      sendMessage c payload t0 d1 (Inr ref_id) d2 s =
        (s\<lparr>messages := messages s @
            [(ref_id, \<lparr>senderId = senderId payload, text' = text' payload,
                       timestamp = Date_now t0 d1\<rparr>)]\<rparr>,
         [io_emit (newMessage \<lparr>senderId = senderId payload, text' = text' payload,
                               timestamp = Date_now t0 d1, id' = Some ref_id\<rparr>)])
      \<and> t0 \<le> Date_now t0 d1)
   \<and> (\<forall>p. io_emit (newMessage p) \<in> set (snd (handle s ev)) \<longrightarrow>
         (\<exists>r. id' p = Some r
            \<and> (r, \<lparr>senderId = senderId p, text' = text' p, timestamp = timestamp p\<rparr>)
                \<in> set (messages (fst (handle s ev)))))"
  using broadcast_is_persisted [of _ s ev]
  by (simp add: sendMessage_persisted Date_now_def)

theorem sendMessage_persist_then_broadcast_witness:
  "senderId \<lparr>senderId = str ''alice'', text' = str ''hi''\<rparr> \<noteq> []
   \<and> text' \<lparr>senderId = str ''alice'', text' = str ''hi''\<rparr> \<noteq> []
   \<and> sendMessage (str ''X'') \<lparr>senderId = str ''alice'', text' = str ''hi''\<rparr> 1000 2
        (Inr (str ''m1'')) 0 server0 =
       (\<lparr>onlineUsers = [],
         messages = [(str ''m1'', \<lparr>senderId = str ''alice'', text' = str ''hi'', timestamp = 1002\<rparr>)]\<rparr>,
        [io_emit (newMessage \<lparr>senderId = str ''alice'', text' = str ''hi'',
                              timestamp = 1002, id' = Some (str ''m1'')\<rparr>)])
   \<and> io_emit (newMessage \<lparr>senderId = str ''alice'', text' = str ''hi'',
                            timestamp = 1002, id' = Some (str ''m1'')\<rparr>)
       \<in> set (snd (handle server0
            (on_sendMessage (str ''X'') \<lparr>senderId = str ''alice'', text' = str ''hi''\<rparr> 1000 2
               (Inr (str ''m1'')) 0)))
   \<and> (str ''m1'', \<lparr>senderId = str ''alice'', text' = str ''hi'', timestamp = 1002\<rparr>)
       \<in> set (messages (fst (handle server0
            (on_sendMessage (str ''X'') \<lparr>senderId = str ''alice'', text' = str ''hi''\<rparr> 1000 2
               (Inr (str ''m1'')) 0))))"
proof -
  let ?p = "\<lparr>senderId = str ''alice'', text' = str ''hi''\<rparr>"
  let ?ev = "on_sendMessage (str ''X'') ?p 1000 2 (Inr (str ''m1'')) 0"
  let ?out = "\<lparr>senderId = str ''alice'', text' = str ''hi'', timestamp = 1002,
               id' = Some (str ''m1'')\<rparr>"
  note inst = sendMessage_persist_then_broadcast [of ?p "str ''X''" 1000 2 "str ''m1''" 0 server0 ?ev]
  have ne: "senderId ?p \<noteq> []" "text' ?p \<noteq> []"
    by (simp_all add: str_eval)
  with inst have run: "sendMessage (str ''X'') ?p 1000 2 (Inr (str ''m1'')) 0 server0 =
       (\<lparr>onlineUsers = [],
         messages = [(str ''m1'', \<lparr>senderId = str ''alice'', text' = str ''hi'', timestamp = 1002\<rparr>)]\<rparr>,
        [io_emit (newMessage ?out)])"
    by (simp add: server0_def Date_now_def)
  then have sent: "io_emit (newMessage ?out) \<in> set (snd (handle server0 ?ev))"
    by simp
  from inst have "io_emit (newMessage ?out) \<in> set (snd (handle server0 ?ev)) \<longrightarrow>
      (\<exists>r. id' ?out = Some r
         \<and> (r, \<lparr>senderId = senderId ?out, text' = text' ?out, timestamp = timestamp ?out\<rparr>)
             \<in> set (messages (fst (handle server0 ?ev))))"
    by blast
  with sent have "(str ''m1'', \<lparr>senderId = str ''alice'', text' = str ''hi'', timestamp = 1002\<rparr>)
       \<in> set (messages (fst (handle server0 ?ev)))"
    by simp
  with ne run sent show ?thesis by blast
qed

text \<open>
  C3: with a non-empty senderId and a non-empty text, when the Firestore \<open>add\<close> fails,
  the state is unchanged and the handler emits one event, to the socket of the sender
  only: a \<open>newMessage\<close> with senderId \<open>system\<close>, the fixed text, the clock read in the
  \<open>catch\<close> block, and no id.
\<close>

theorem sendMessage_failure_private:
  "senderId payload \<noteq> [] \<Longrightarrow> text' payload \<noteq> [] \<Longrightarrow>
   sendMessage c payload t0 d1 (Inl e) d2 s =
     (s, [socket_emit c (newMessage
        \<lparr>senderId = str ''system'', text' = str ''Error sending message. Please try again.'',
         timestamp = Date_now (Date_now t0 d1) d2, id' = None\<rparr>)])
   \<and> Date_now t0 d1 \<le> Date_now (Date_now t0 d1) d2"
  by (simp add: sendMessage_failed Date_now_def)

theorem sendMessage_failure_private_witness:
  "senderId \<lparr>senderId = str ''alice'', text' = str ''hi''\<rparr> \<noteq> []
   \<and> text' \<lparr>senderId = str ''alice'', text' = str ''hi''\<rparr> \<noteq> []
   \<and> sendMessage (str ''X'') \<lparr>senderId = str ''alice'', text' = str ''hi''\<rparr> 1000 2
        (Inl StorageError) 5 server0 =
       (server0, [socket_emit (str ''X'') (newMessage
          \<lparr>senderId = str ''system'', text' = str ''Error sending message. Please try again.'',
           timestamp = 1007, id' = None\<rparr>)])"
  using sendMessage_failure_private
          [of "\<lparr>senderId = str ''alice'', text' = str ''hi''\<rparr>" "str ''X''" 1000 2 StorageError 5 server0]
  by (simp add: str_eval Date_now_def)

text \<open>
  C4 (as amended): a payload with an empty senderId or an empty text is dropped, nothing
  stored and nothing emitted; every other payload, a text of white space included, yields
  one event.
\<close>

theorem sendMessage_empty_dropped:
  "(senderId payload = [] \<or> text' payload = [] \<longrightarrow>
      sendMessage c payload t0 d1 outcome d2 s = (s, []))
   \<and> (senderId payload \<noteq> [] \<and> text' payload \<noteq> [] \<longrightarrow>
      length (snd (sendMessage c payload t0 d1 outcome d2 s)) = 1)"
  by (cases outcome) (auto simp: sendMessage_rejected sendMessage_persisted sendMessage_failed)

theorem sendMessage_empty_dropped_witness:
  "(senderId \<lparr>senderId = str ''alice'', text' = str ''''\<rparr> = []
      \<or> text' \<lparr>senderId = str ''alice'', text' = str ''''\<rparr> = [])
   \<and> sendMessage (str ''X'') \<lparr>senderId = str ''alice'', text' = str ''''\<rparr> 1000 0
        (Inr (str ''m1'')) 0 server0 = (server0, [])
   \<and> length (snd (sendMessage (str ''X'') \<lparr>senderId = str ''alice'', text' = str ''   ''\<rparr> 1000 0
        (Inr (str ''m1'')) 0 server0)) = 1"
  using sendMessage_empty_dropped
          [of "\<lparr>senderId = str ''alice'', text' = str ''''\<rparr>" "str ''X''" 1000 0 "Inr (str ''m1'')" 0 server0]
        sendMessage_empty_dropped
          [of "\<lparr>senderId = str ''alice'', text' = str ''   ''\<rparr>" "str ''X''" 1000 0 "Inr (str ''m1'')" 0 server0]
  by (simp add: str_eval)

text \<open>
  The handler does not trim: a text of three spaces is stored and sent to every
  connection.
\<close>

theorem sendMessage_whitespace_counterexample:
  "trim (str ''   '') = []
   \<and> sendMessage (str ''X'') \<lparr>senderId = str ''alice'', text' = str ''   ''\<rparr> 1000 0
        (Inr (str ''m1'')) 0 server0 =
       (\<lparr>onlineUsers = [],
         messages = [(str ''m1'', \<lparr>senderId = str ''alice'', text' = str ''   '', timestamp = 1000\<rparr>)]\<rparr>,
        [io_emit (newMessage \<lparr>senderId = str ''alice'', text' = str ''   '',
                              timestamp = 1000, id' = Some (str ''m1'')\<rparr>)])"
  by (simp add: sendMessage_def Let_def collection_add_def server0_def Date_now_def trim_def
      str_eval isWhiteSpace_def)

text \<open>
  C9: \<open>sendMessage\<close> returns the registry it was given, whatever the payload and the
  outcome of the store; an event whose handling changes the registry is a \<open>newUser\<close>
  or a \<open>disconnect\<close>.
\<close>

theorem sendMessage_preserves_registry:
  "onlineUsers (fst (sendMessage c payload t0 d1 outcome d2 s)) = onlineUsers s
   \<and> (onlineUsers (fst (handle s' ev)) \<noteq> onlineUsers s' \<longrightarrow>
        (\<exists>c' uid. ev = on_newUser c' uid) \<or> (\<exists>c'. ev = on_disconnect c'))"
  by (cases ev) (simp_all add: sendMessage_onlineUsers)

theorem sendMessage_preserves_registry_witness:
  "onlineUsers (fst (handle server0 (on_newUser (str ''X'') (str ''alice'')))) \<noteq> onlineUsers server0
   \<and> ((\<exists>c' uid. on_newUser (str ''X'') (str ''alice'') = on_newUser c' uid)
        \<or> (\<exists>c'. on_newUser (str ''X'') (str ''alice'') = on_disconnect c'))
   \<and> onlineUsers (fst (sendMessage (str ''X'') \<lparr>senderId = str ''alice'', text' = str ''hi''\<rparr> 1000 2
        (Inr (str ''m1'')) 0 \<lparr>onlineUsers = [\<lparr>socketId = str ''X'', userId = str ''alice''\<rparr>], messages = []\<rparr>))
      = [\<lparr>socketId = str ''X'', userId = str ''alice''\<rparr>]
   \<and> onlineUsers (fst (sendMessage (str ''X'') \<lparr>senderId = str ''alice'', text' = str ''hi''\<rparr> 1000 2
        (Inl StorageError) 0 \<lparr>onlineUsers = [\<lparr>socketId = str ''X'', userId = str ''alice''\<rparr>], messages = []\<rparr>))
      = [\<lparr>socketId = str ''X'', userId = str ''alice''\<rparr>]
   \<and> onlineUsers (fst (sendMessage (str ''X'') \<lparr>senderId = str ''alice'', text' = []\<rparr> 1000 2
        (Inr (str ''m1'')) 0 \<lparr>onlineUsers = [\<lparr>socketId = str ''X'', userId = str ''alice''\<rparr>], messages = []\<rparr>))
      = [\<lparr>socketId = str ''X'', userId = str ''alice''\<rparr>]"
proof -
  let ?s = "\<lparr>onlineUsers = [\<lparr>socketId = str ''X'', userId = str ''alice''\<rparr>], messages = []\<rparr>"
  let ?ev = "on_newUser (str ''X'') (str ''alice'')"
  have h: "onlineUsers (fst (handle server0 ?ev)) \<noteq> onlineUsers server0"
    by (simp add: newUser_def Let_def server0_def trim_def str_eval isWhiteSpace_def)
  show ?thesis
    using h
      sendMessage_preserves_registry [of "str ''X''" "\<lparr>senderId = str ''alice'', text' = str ''hi''\<rparr>" 1000 2
        "Inr (str ''m1'')" 0 ?s server0 ?ev]
      sendMessage_preserves_registry [of "str ''X''" "\<lparr>senderId = str ''alice'', text' = str ''hi''\<rparr>" 1000 2
        "Inl StorageError" 0 ?s server0 ?ev]
      sendMessage_preserves_registry [of "str ''X''" "\<lparr>senderId = str ''alice'', text' = []\<rparr>" 1000 2
        "Inr (str ''m1'')" 0 ?s server0 ?ev]
    by simp
qed

section \<open>Disconnecting\<close>

lemma filter_socketId_distinct:
  "distinct (map socketId xs) \<Longrightarrow> c \<in> socketId ` set xs \<Longrightarrow>
   Suc (length (filter (\<lambda>user. socketId user \<noteq> c) xs)) = length xs"
proof (induction xs)
  case Nil
  then show ?case by simp
next
  case (Cons x xs)
  show ?case
  proof (cases "socketId x = c")
    case True
    with Cons.prems(1) have "c \<notin> socketId ` set xs" by auto
    then have "filter (\<lambda>user. socketId user \<noteq> c) xs = xs"
      by (auto simp: filter_id_conv)
    with True show ?thesis by simp
  next
    case False
    with Cons show ?thesis by auto
  qed
qed

lemma two_registrations:
  assumes "trim a \<noteq> []"
  shows "run server0 [on_newUser x a, on_newUser y a] =
           \<lparr>onlineUsers = [\<lparr>socketId = y, userId = a\<rparr>], messages = []\<rparr>"
proof -
  have 1: "newUser x a server0 =
      (\<lparr>onlineUsers = [\<lparr>socketId = x, userId = a\<rparr>], messages = []\<rparr>,
       [io_emit (usersOnline [\<lparr>socketId = x, userId = a\<rparr>])])"
    using newUser_fresh [of a server0 x] assms by (simp add: server0_def)
  have 2: "newUser y a \<lparr>onlineUsers = [\<lparr>socketId = x, userId = a\<rparr>], messages = []\<rparr> =
      (\<lparr>onlineUsers = [\<lparr>socketId = y, userId = a\<rparr>], messages = []\<rparr>,
       [io_emit (usersOnline [\<lparr>socketId = y, userId = a\<rparr>])])"
    using newUser_existing [of a "\<lparr>onlineUsers = [\<lparr>socketId = x, userId = a\<rparr>], messages = []\<rparr>" y] assms
    by simp
  show ?thesis by (simp add: run_Cons run_Nil 1 2)
qed

lemma socketId_update_eq:
  "userId (user :: OnlineUser) = a \<Longrightarrow> user\<lparr>socketId := y\<rparr> = \<lparr>socketId = y, userId = a\<rparr>"
  by (cases user) simp

lemma newUser_online:
  assumes "trim a \<noteq> []"
  shows "\<lparr>socketId = y, userId = a\<rparr> \<in> set (onlineUsers (fst (newUser y a s)))"
proof (cases "a \<in> userId ` set (onlineUsers s)")
  case True
  then obtain user where user: "user \<in> set (onlineUsers s)" "userId user = a" by auto
  let ?f = "\<lambda>user. if userId user = a then user\<lparr>socketId := y\<rparr> else user"
  from user(2) have "?f user = \<lparr>socketId = y, userId = a\<rparr>"
    by (simp add: socketId_update_eq)
  moreover from user(1) have "?f user \<in> set (map ?f (onlineUsers s))"
    unfolding set_map by (rule imageI)
  moreover have "onlineUsers (fst (newUser y a s)) = map ?f (onlineUsers s)"
    by (simp add: newUser_existing [OF True assms])
  ultimately show ?thesis by simp
next
  case False
  then show ?thesis by (simp add: newUser_fresh [OF False assms])
qed

lemma reconnect_stays_online:
  assumes "trim a \<noteq> []" and "x \<noteq> y"
  shows "\<lparr>socketId = y, userId = a\<rparr>
           \<in> set (onlineUsers (run s [on_newUser x a, on_newUser y a, on_disconnect x]))"
proof -
  have "\<lparr>socketId = y, userId = a\<rparr> \<in> set (onlineUsers (fst (newUser y a (fst (newUser x a s)))))"
    using assms(1) by (rule newUser_online)
  with assms(2) show ?thesis
    by (simp add: run_Cons run_Nil disconnect_onlineUsers)
qed

text \<open>
  C7: \<open>disconnect\<close> keeps the entries whose socketId differs from that of the socket,
  leaves the stored messages alone and always sends the roster to every connection.  A
  socket without an entry leaves the state as it was; a socket with an entry shortens the
  registry, by one when the socketIds are pairwise distinct.  After \<open>a\<close> registers from
  \<open>x\<close> and then from another socket \<open>y\<close>, the disconnect of \<open>x\<close> changes nothing and
  \<open>a\<close> stays online through \<open>y\<close>.
\<close>

theorem disconnect_removes:
  "onlineUsers (fst (disconnect c s)) = filter (\<lambda>user. socketId user \<noteq> c) (onlineUsers s)
   \<and> messages (fst (disconnect c s)) = messages s
   \<and> snd (disconnect c s) = [io_emit (usersOnline (onlineUsers (fst (disconnect c s))))]
   \<and> (c \<notin> socketId ` set (onlineUsers s) \<longrightarrow> fst (disconnect c s) = s)
   \<and> (c \<in> socketId ` set (onlineUsers s) \<longrightarrow>
        length (onlineUsers (fst (disconnect c s))) < length (onlineUsers s))
   \<and> (c \<in> socketId ` set (onlineUsers s) \<and> distinct (map socketId (onlineUsers s)) \<longrightarrow>
        Suc (length (onlineUsers (fst (disconnect c s)))) = length (onlineUsers s))
   \<and> (trim a \<noteq> [] \<and> x \<noteq> y \<longrightarrow>
        run server0 [on_newUser x a, on_newUser y a, on_disconnect x]
          = run server0 [on_newUser x a, on_newUser y a]
        \<and> onlineUsers (run server0 [on_newUser x a, on_newUser y a, on_disconnect x])
          = [\<lparr>socketId = y, userId = a\<rparr>]
        \<and> \<lparr>socketId = y, userId = a\<rparr>
          \<in> set (onlineUsers (run s [on_newUser x a, on_newUser y a, on_disconnect x])))"
proof (intro conjI impI)
  show "onlineUsers (fst (disconnect c s)) = filter (\<lambda>user. socketId user \<noteq> c) (onlineUsers s)"
    by (rule disconnect_onlineUsers)
  show "messages (fst (disconnect c s)) = messages s"
    by (simp add: disconnect_def Let_def)
  show "snd (disconnect c s) = [io_emit (usersOnline (onlineUsers (fst (disconnect c s))))]"
    by (simp add: disconnect_def Let_def)
  show "fst (disconnect c s) = s" if "c \<notin> socketId ` set (onlineUsers s)"
  proof -
    from that have "filter (\<lambda>user. socketId user \<noteq> c) (onlineUsers s) = onlineUsers s"
      by (auto simp: filter_id_conv)
    then show ?thesis by (simp add: disconnect_def Let_def)
  qed
  show "length (onlineUsers (fst (disconnect c s))) < length (onlineUsers s)"
    if "c \<in> socketId ` set (onlineUsers s)"
    using that by (auto simp: disconnect_onlineUsers intro!: length_filter_less)
  show "Suc (length (onlineUsers (fst (disconnect c s)))) = length (onlineUsers s)"
    if "c \<in> socketId ` set (onlineUsers s) \<and> distinct (map socketId (onlineUsers s))"
    using that by (simp add: disconnect_onlineUsers filter_socketId_distinct)
next
  assume a: "trim a \<noteq> [] \<and> x \<noteq> y"
  have "run server0 ([on_newUser x a, on_newUser y a] @ [on_disconnect x])
          = fst (disconnect x (run server0 [on_newUser x a, on_newUser y a]))"
    by (simp only: run_snoc handle.simps)
  also have "\<dots> = run server0 [on_newUser x a, on_newUser y a]"
    using a by (auto simp: two_registrations disconnect_def Let_def)
  finally show "run server0 [on_newUser x a, on_newUser y a, on_disconnect x]
          = run server0 [on_newUser x a, on_newUser y a]" by simp
  then show "onlineUsers (run server0 [on_newUser x a, on_newUser y a, on_disconnect x])
          = [\<lparr>socketId = y, userId = a\<rparr>]"
    using a by (simp add: two_registrations)
  show "\<lparr>socketId = y, userId = a\<rparr>
          \<in> set (onlineUsers (run s [on_newUser x a, on_newUser y a, on_disconnect x]))"
    using a by (simp add: reconnect_stays_online)
qed

theorem disconnect_removes_witness:
  "str ''X'' \<in> socketId ` set (onlineUsers
       \<lparr>onlineUsers = [\<lparr>socketId = str ''X'', userId = str ''alice''\<rparr>,
                       \<lparr>socketId = str ''Y'', userId = str ''bob''\<rparr>], messages = []\<rparr>)
   \<and> distinct (map socketId (onlineUsers
       \<lparr>onlineUsers = [\<lparr>socketId = str ''X'', userId = str ''alice''\<rparr>,
                       \<lparr>socketId = str ''Y'', userId = str ''bob''\<rparr>], messages = []\<rparr>))
   \<and> Suc (length (onlineUsers (fst (disconnect (str ''X'')
       \<lparr>onlineUsers = [\<lparr>socketId = str ''X'', userId = str ''alice''\<rparr>,
                       \<lparr>socketId = str ''Y'', userId = str ''bob''\<rparr>], messages = []\<rparr>)))) = 2
   \<and> str ''Z'' \<notin> socketId ` set (onlineUsers
       \<lparr>onlineUsers = [\<lparr>socketId = str ''X'', userId = str ''alice''\<rparr>,
                       \<lparr>socketId = str ''Y'', userId = str ''bob''\<rparr>], messages = []\<rparr>)
   \<and> fst (disconnect (str ''Z'')
       \<lparr>onlineUsers = [\<lparr>socketId = str ''X'', userId = str ''alice''\<rparr>,
                       \<lparr>socketId = str ''Y'', userId = str ''bob''\<rparr>], messages = []\<rparr>)
      = \<lparr>onlineUsers = [\<lparr>socketId = str ''X'', userId = str ''alice''\<rparr>,
                       \<lparr>socketId = str ''Y'', userId = str ''bob''\<rparr>], messages = []\<rparr>
   \<and> trim (str ''alice'') \<noteq> [] \<and> str ''X'' \<noteq> str ''Y''
   \<and> onlineUsers (run server0 [on_newUser (str ''X'') (str ''alice''),
        on_newUser (str ''Y'') (str ''alice''), on_disconnect (str ''X'')])
      = [\<lparr>socketId = str ''Y'', userId = str ''alice''\<rparr>]
   \<and> \<lparr>socketId = str ''Y'', userId = str ''alice''\<rparr>
      \<in> set (onlineUsers (run
           \<lparr>onlineUsers = [\<lparr>socketId = str ''X'', userId = str ''alice''\<rparr>,
                           \<lparr>socketId = str ''Y'', userId = str ''bob''\<rparr>], messages = []\<rparr>
           [on_newUser (str ''X'') (str ''alice''), on_newUser (str ''Y'') (str ''alice''),
            on_disconnect (str ''X'')]))"
proof -
  let ?s = "\<lparr>onlineUsers = [\<lparr>socketId = str ''X'', userId = str ''alice''\<rparr>,
                       \<lparr>socketId = str ''Y'', userId = str ''bob''\<rparr>], messages = []\<rparr>"
  have h1: "str ''X'' \<in> socketId ` set (onlineUsers ?s)" by simp
  have h2: "distinct (map socketId (onlineUsers ?s))" by (simp add: str_eval)
  have h3: "str ''Z'' \<notin> socketId ` set (onlineUsers ?s)" by (simp add: str_eval)
  have h4: "trim (str ''alice'') \<noteq> []" by (simp add: trim_def str_eval isWhiteSpace_def)
  have h5: "str ''X'' \<noteq> str ''Y''" by (simp add: str_eval)
  show ?thesis
    using h1 h2 h3 h4 h5
      disconnect_removes [of "str ''X''" ?s "str ''alice''" "str ''X''" "str ''Y''"]
      disconnect_removes [of "str ''Z''" ?s "str ''alice''" "str ''X''" "str ''Y''"]
    by simp
qed

text \<open>
  C10: after \<open>disconnect\<close> for a socket, no entry of the registry carries its socketId,
  however many did before.
\<close>

theorem disconnect_clears_socket:
  "c \<notin> socketId ` set (onlineUsers (fst (disconnect c s)))"
  by (auto simp: disconnect_onlineUsers)

theorem disconnect_clears_socket_witness:
  "str ''X'' \<notin> socketId ` set (onlineUsers (fst (disconnect (str ''X'')
       \<lparr>onlineUsers = [\<lparr>socketId = str ''X'', userId = str ''alice''\<rparr>,
                       \<lparr>socketId = str ''X'', userId = str ''bob''\<rparr>,
                       \<lparr>socketId = str ''Y'', userId = str ''carol''\<rparr>], messages = []\<rparr>)))
   \<and> onlineUsers (fst (disconnect (str ''X'')
       \<lparr>onlineUsers = [\<lparr>socketId = str ''X'', userId = str ''alice''\<rparr>,
                       \<lparr>socketId = str ''X'', userId = str ''bob''\<rparr>,
                       \<lparr>socketId = str ''Y'', userId = str ''carol''\<rparr>], messages = []\<rparr>))
      = [\<lparr>socketId = str ''Y'', userId = str ''carol''\<rparr>]"
  using disconnect_clears_socket [of "str ''X''"
       "\<lparr>onlineUsers = [\<lparr>socketId = str ''X'', userId = str ''alice''\<rparr>,
                       \<lparr>socketId = str ''X'', userId = str ''bob''\<rparr>,
                       \<lparr>socketId = str ''Y'', userId = str ''carol''\<rparr>], messages = []\<rparr>"]
  by (simp add: disconnect_onlineUsers str_eval)

section \<open>Properties of the history retrieval\<close>

lemma sorted_timestamps:
  fixes docs :: "doc list"
  shows "sorted (map (\<lambda>d. timestamp (snd d)) (sort_key (\<lambda>d. (timestamp (snd d), fst d)) docs))"
proof -
  let ?k = "\<lambda>d::doc. (timestamp (snd d), fst d)"
  have "sorted (map ?k (sort_key ?k docs))" by (rule sorted_sort_key)
  then have "sorted_wrt (\<lambda>x y. ?k x \<le> ?k y) (sort_key ?k docs)"
    by (simp add: sorted_map)
  then have "sorted_wrt (\<lambda>x y. timestamp (snd x) \<le> timestamp (snd y)) (sort_key ?k docs)"
    by (rule sorted_wrt_mono_rel [rotated]) (auto simp: less_eq_prod_def)
  then show ?thesis by (simp add: sorted_map)
qed

lemma map_timestamp_stored: "map timestamp (map stored ds) = map (\<lambda>d. timestamp (snd d)) ds"
  by (simp add: stored_def)

lemma recent_split:
  fixes docs :: "doc list" and n :: nat
  defines "ys \<equiv> sort_key (\<lambda>d. (timestamp (snd d), fst d)) docs"
  defines "kept \<equiv> drop (length ys - n) ys" and "omitted \<equiv> take (length ys - n) ys"
  shows "rev (map stored (take n (orderBy_timestamp_desc docs))) = map stored kept"
    and "mset docs = mset omitted + mset kept"
    and "length kept = min n (length docs)"
    and "sorted (map (\<lambda>d. timestamp (snd d)) kept)"
    and "\<forall>x\<in>set omitted. \<forall>y\<in>set kept. timestamp (snd x) \<le> timestamp (snd y)"
proof -
  show "rev (map stored (take n (orderBy_timestamp_desc docs))) = map stored kept"
    by (simp add: orderBy_timestamp_desc_def ys_def kept_def rev_map rev_take)
  have "mset ys = mset (omitted @ kept)"
    by (simp only: omitted_def kept_def append_take_drop_id)
  then show "mset docs = mset omitted + mset kept"
    by (simp add: ys_def)
  show "length kept = min n (length docs)"
    by (auto simp: kept_def ys_def)
  have s: "sorted (map (\<lambda>d. timestamp (snd d)) (omitted @ kept))"
    using sorted_timestamps [of docs]
    by (simp only: omitted_def kept_def append_take_drop_id ys_def)
  then show "sorted (map (\<lambda>d. timestamp (snd d)) kept)"
    by (simp add: sorted_append)
  from s show "\<forall>x\<in>set omitted. \<forall>y\<in>set kept. timestamp (snd x) \<le> timestamp (snd y)"
    by (simp add: sorted_append)
qed

text \<open>
  C8 (as amended): for every limit \<open>n\<close> of at least 1 and every stored collection, when
  the store can be read, \<open>getAllMessages\<close> and \<open>GET /api/messages\<close> with that limit
  return the same list: \<open>min n\<close> (number of documents) messages, in ascending order of
  timestamp, each document left out having a timestamp no later than any message
  returned.  The route replaces a limit that is missing, not a number or 0 by 100.  When
  the store cannot be read, \<open>getAllMessages\<close> fails and the route answers 500.
\<close>

theorem history_recent:
  "(1 \<le> n \<longrightarrow>
      (\<exists>ms kept omitted.
          getAllMessages True n docs = Inr ms
        \<and> api_messages True (Some n) docs = Inr ms
        \<and> ms = map stored kept
        \<and> mset docs = mset omitted + mset kept
        \<and> length ms \<le> n
        \<and> length ms = min n (length docs)
        \<and> sorted (map timestamp ms)
        \<and> (\<forall>x\<in>set omitted. \<forall>m\<in>set ms. timestamp (snd x) \<le> timestamp m)))
   \<and> api_messages reachable None docs = api_messages reachable (Some 100) docs
   \<and> api_messages reachable (Some 0) docs = api_messages reachable (Some 100) docs
   \<and> getAllMessages False n docs = Inl StorageError
   \<and> api_messages False parsed docs = Inl 500"
proof (intro conjI impI)
  assume n: "1 \<le> n"
  define ys where "ys = sort_key (\<lambda>d. (timestamp (snd d), fst d)) docs"
  define kept where "kept = drop (length ys - n) ys"
  define omitted where "omitted = take (length ys - n) ys"
  note r = recent_split [where n = n and docs = docs, folded ys_def, folded kept_def omitted_def]
  let ?ms = "map stored kept"
  have 1: "getAllMessages True n docs = Inr ?ms"
    by (simp add: getAllMessages_def query_get_def r(1))
  have 2: "api_messages True (Some n) docs = Inr ?ms"
    using n by (simp add: api_messages_def query_get_def r(1))
  have 3: "length ?ms \<le> n" "length ?ms = min n (length docs)"
    using r(3) by simp_all
  have 4: "sorted (map timestamp ?ms)"
    using r(4) by (simp only: map_timestamp_stored)
  have 5: "\<forall>x\<in>set omitted. \<forall>m\<in>set ?ms. timestamp (snd x) \<le> timestamp m"
    using r(5) by (auto simp: stored_def)
  from 1 2 3 4 5 r(2) show "\<exists>ms kept omitted.
          getAllMessages True n docs = Inr ms
        \<and> api_messages True (Some n) docs = Inr ms
        \<and> ms = map stored kept
        \<and> mset docs = mset omitted + mset kept
        \<and> length ms \<le> n
        \<and> length ms = min n (length docs)
        \<and> sorted (map timestamp ms)
        \<and> (\<forall>x\<in>set omitted. \<forall>m\<in>set ms. timestamp (snd x) \<le> timestamp m)"
    by blast
qed (simp_all add: api_messages_def getAllMessages_def query_get_def)

theorem history_recent_witness:
  "(1::nat) \<le> 2
   \<and> getAllMessages True 2
        [(str ''m3'', \<lparr>senderId = str ''alice'', text' = str ''three'', timestamp = 1003\<rparr>),
         (str ''m1'', \<lparr>senderId = str ''alice'', text' = str ''one'', timestamp = 1001\<rparr>),
         (str ''m2'', \<lparr>senderId = str ''bob'', text' = str ''two'', timestamp = 1002\<rparr>)]
      = Inr [\<lparr>senderId = str ''bob'', text' = str ''two'', timestamp = 1002, id' = Some (str ''m2'')\<rparr>,
             \<lparr>senderId = str ''alice'', text' = str ''three'', timestamp = 1003, id' = Some (str ''m3'')\<rparr>]
   \<and> api_messages True (Some 2)
        [(str ''m3'', \<lparr>senderId = str ''alice'', text' = str ''three'', timestamp = 1003\<rparr>),
         (str ''m1'', \<lparr>senderId = str ''alice'', text' = str ''one'', timestamp = 1001\<rparr>),
         (str ''m2'', \<lparr>senderId = str ''bob'', text' = str ''two'', timestamp = 1002\<rparr>)]
      = Inr [\<lparr>senderId = str ''bob'', text' = str ''two'', timestamp = 1002, id' = Some (str ''m2'')\<rparr>,
             \<lparr>senderId = str ''alice'', text' = str ''three'', timestamp = 1003, id' = Some (str ''m3'')\<rparr>]"
proof -
  let ?docs = "[(str ''m3'', \<lparr>senderId = str ''alice'', text' = str ''three'', timestamp = 1003\<rparr>),
         (str ''m1'', \<lparr>senderId = str ''alice'', text' = str ''one'', timestamp = 1001\<rparr>),
         (str ''m2'', \<lparr>senderId = str ''bob'', text' = str ''two'', timestamp = 1002\<rparr>)]"
  have n: "(1::nat) \<le> 2" by simp
  have g: "getAllMessages True 2 ?docs
      = Inr [\<lparr>senderId = str ''bob'', text' = str ''two'', timestamp = 1002, id' = Some (str ''m2'')\<rparr>,
             \<lparr>senderId = str ''alice'', text' = str ''three'', timestamp = 1003, id' = Some (str ''m3'')\<rparr>]"
    by (simp add: getAllMessages_def query_get_def orderBy_timestamp_desc_def stored_def
        less_eq_prod_def)
  from n history_recent [of 2 ?docs] obtain ms where
    "getAllMessages True 2 ?docs = Inr ms" "api_messages True (Some 2) ?docs = Inr ms"
    by blast
  with g n show ?thesis by simp
qed

text \<open>
  With the limit 0 the route does not return an empty list: \<open>0 || 100\<close> is 100, so
  the stored message is returned.
\<close>

theorem history_limit_zero_counterexample:
  "api_messages True (Some 0)
     [(str ''m1'', \<lparr>senderId = str ''alice'', text' = str ''one'', timestamp = 1001\<rparr>)]
   = Inr [\<lparr>senderId = str ''alice'', text' = str ''one'', timestamp = 1001, id' = Some (str ''m1'')\<rparr>]"
  by (simp add: api_messages_def query_get_def orderBy_timestamp_desc_def stored_def)

end
